theory Spec2Isabelle
  imports Complex_Main "HOL-Library.Log_Nat"
begin

section \<open>Conventions of the embedding\<close>

text \<open>
  The repository is the decision core of a market-making bot: \<^verbatim>\<open>src/obi_calculator.py\<close>
  (class \<^verbatim>\<open>OBICalculator\<close>), \<^verbatim>\<open>src/strategy.py\<close> (class \<^verbatim>\<open>MarketMakingStrategy\<close>) and
  \<^verbatim>\<open>src/bean/types.py\<close> (dataclass \<^verbatim>\<open>TickContext\<close>).

  \<^item> A Python \<^verbatim>\<open>float\<close> is an IEEE 754 binary64 number, embedded as the \<^typ>\<open>real\<close> it
    denotes. In \<^verbatim>\<open>src/obi_calculator.py\<close> every arithmetic step is the binary64 one: the
    exact result rounded to the nearest binary64 number by \<open>fl\<close>. In \<^verbatim>\<open>src/strategy.py\<close>
    the arithmetic steps are the exact ones; its decimal formatting and its rounding to
    integers are those of Python. The evaluations on the tick size 0.5 go through binary
    fractions only, which binary64 holds exactly. Python \<^verbatim>\<open>int\<close> values are \<^typ>\<open>int\<close>.
  \<^item> An exception is a value: a function that may raise returns \<open>py_error + 'a\<close>, with
    \<open>Inl\<close> carrying the name of the Python exception class.
  \<^item> An object that a method mutates is passed in and returned.
  \<^item> The replies of the exchange client (\<^verbatim>\<open>ccxt\<close>) are inputs of the model; the requests
    a method sends and the log records it writes are returned as a list of events, in the
    order of the calls.
\<close>

type_synonym py_error = string

abbreviation IndexError :: py_error where "IndexError \<equiv> ''IndexError''"
abbreviation TypeError :: py_error where "TypeError \<equiv> ''TypeError''"
abbreviation ValueError :: py_error where "ValueError \<equiv> ''ValueError''"
abbreviation ZeroDivisionError :: py_error where "ZeroDivisionError \<equiv> ''ZeroDivisionError''"
abbreviation RuntimeError :: py_error where "RuntimeError \<equiv> ''RuntimeError''"

text \<open>A side of the order book: \<^verbatim>\<open>List[Tuple[float, float]]\<close>, pairs (price, quantity).\<close>

type_synonym book_side = "(real \<times> real) list"

section \<open>Binary64 arithmetic\<close>

text \<open>
  Rounding to the nearest integer with a tie going to the even one. It is \<^verbatim>\<open>round(x)\<close> of
  Python 3 on a float, and the rounding of the significand in IEEE 754.
\<close>

definition py_round :: "real \<Rightarrow> int" where
  "py_round x =
     (let f = \<lfloor>x\<rfloor>; d = x - of_int f
      in if d < 1 / 2 then f
         else if 1 / 2 < d then f + 1
         else if even f then f else f + 1)"

text \<open>
  The binary exponent of a number that is not zero: the \<open>e\<close> with
  \<open>2 powi e \<le> \<bar>x\<bar> < 2 powi (e + 1)\<close> (\<open>exponent_bounds\<close>), computed from the bit length of an
  integer part.
\<close>

definition exponent :: "real \<Rightarrow> int" where
  "exponent x =
     (let a = \<bar>x\<bar>
      in if 1 \<le> a then bitlen \<lfloor>a\<rfloor> - 1
         else (let k = bitlen \<lfloor>1 / a\<rfloor> - 1
               in if 1 / a = 2 ^ nat k then - k else - k - 1))"

text \<open>
  \<open>fl x\<close> is the binary64 number nearest to \<open>x\<close>, a tie going to the even significand: a
  multiple of \<open>2 powi (e - 52)\<close>, with \<open>e\<close> the exponent of \<open>x\<close> and at least -1022 (below,
  the subnormal numbers share one spacing). The largest finite binary64 number is below
  \<open>2 ^ 1024\<close>; a result beyond it is an infinity in Python, and an invalid operation gives
  a NaN: neither is a \<^typ>\<open>real\<close>, and \<open>fl\<close> is the operation of the machine on the results
  of magnitude below \<open>2 ^ 1024\<close> only. The arithmetic operations of binary64 are correctly
  rounded: each is the exact operation followed by \<open>fl\<close>.
\<close>

definition fl :: "real \<Rightarrow> real" where
  "fl x =
     (if x = 0 then 0
      else (let e = max (exponent x) (- 1022);
                q = 2 powi (e - 52)
            in of_int (py_round (x / q)) * q))"

definition fadd :: "real \<Rightarrow> real \<Rightarrow> real" where "fadd x y = fl (x + y)"
definition fsub :: "real \<Rightarrow> real \<Rightarrow> real" where "fsub x y = fl (x - y)"
definition fmul :: "real \<Rightarrow> real \<Rightarrow> real" where "fmul x y = fl (x * y)"
definition fdiv :: "real \<Rightarrow> real \<Rightarrow> real" where "fdiv x y = fl (x / y)"
definition fsqrt :: "real \<Rightarrow> real" where "fsqrt x = fl (sqrt x)"

section \<open>\<^verbatim>\<open>src/obi_calculator.py\<close>\<close>

text \<open>
  \<^verbatim>\<open>OBICalculator\<close>: \<^verbatim>\<open>depth\<close>, \<^verbatim>\<open>window_ms\<close> and the deque \<^verbatim>\<open>history\<close> of
  (timestamp, raw imbalance) pairs, oldest first.
\<close>

record OBICalculator =
  depth :: real
  window_ms :: int
  history :: "(int \<times> real) list"

text \<open>
  The builtin \<^verbatim>\<open>sum\<close> over a generator of floats: it starts from 0 and adds the values
  from left to right, rounding after each addition.
\<close>

definition py_sum :: "real list \<Rightarrow> real" where
  "py_sum xs = foldl fadd 0 xs"

text \<open>
  \<^verbatim>\<open>compute_raw_imbalance\<close>. \<^verbatim>\<open>bids[0][0]\<close> and \<^verbatim>\<open>asks[0][0]\<close> raise \<^verbatim>\<open>IndexError\<close> on an
  empty list, the bids being read first. The two bounds and the two sums are rounded at
  each step, and so is the final difference.
\<close>

definition compute_raw_imbalance :: "OBICalculator \<Rightarrow> book_side \<Rightarrow> book_side \<Rightarrow> py_error + real" where
  "compute_raw_imbalance c bids asks =
     (case bids of
        [] \<Rightarrow> Inl IndexError
      | (best_bid, _) # _ \<Rightarrow>
          (case asks of
             [] \<Rightarrow> Inl IndexError
           | (best_ask, _) # _ \<Rightarrow>
               (let mid_price = fdiv (fadd best_bid best_ask) 2;
                    lower = fmul mid_price (fsub 1 (depth c));
                    upper = fmul mid_price (fadd 1 (depth c));
                    sum_bid = py_sum (map snd (filter (\<lambda>(price, qty). price \<ge> lower) bids));
                    sum_ask = py_sum (map snd (filter (\<lambda>(price, qty). price \<le> upper) asks))
                in Inr (fsub sum_bid sum_ask))))"

text \<open>
  \<^verbatim>\<open>_purge_expired\<close>: the \<^verbatim>\<open>while\<close> loop pops the head of the deque as long as the head's
  timestamp is below the cutoff; it stops at the first head that is not.
\<close>

fun pop_expired :: "int \<Rightarrow> (int \<times> real) list \<Rightarrow> (int \<times> real) list" where
  "pop_expired cutoff [] = []"
| "pop_expired cutoff ((ts, raw) # rest) =
     (if ts < cutoff then pop_expired cutoff rest else (ts, raw) # rest)"

definition purge_expired :: "OBICalculator \<Rightarrow> int \<Rightarrow> OBICalculator" where
  "purge_expired c current_ts_ms =
     (let cutoff = current_ts_ms - window_ms c
      in c\<lparr>history := pop_expired cutoff (history c)\<rparr>)"

text \<open>
  The sum of a contiguous array of doubles in NumPy (\<^verbatim>\<open>add.reduce\<close>, pairwise summation):
  fewer than 8 values are added from left to right; up to 128 values are added in eight
  interleaved partial sums, which are then added in pairs, and the values left over after
  the last full group of eight are added from left to right; a longer array is split near
  its middle, at a multiple of 8, and the sums of the two parts are added.
\<close>

function lanes_loop :: "real list \<Rightarrow> real list \<Rightarrow> real list \<times> real list" where
  "lanes_loop r xs =
     (if 8 \<le> length xs then lanes_loop (map2 fadd r (take 8 xs)) (drop 8 xs) else (r, xs))"
  by pat_completeness auto
termination
  by (relation "measure (\<lambda>(r, xs). length xs)") auto

definition block_sum :: "real list \<Rightarrow> real" where
  "block_sum xs =
     (let (r, rest) = lanes_loop (take 8 xs) (drop 8 xs);
          res = fadd (fadd (fadd (r ! 0) (r ! 1)) (fadd (r ! 2) (r ! 3)))
                     (fadd (fadd (r ! 4) (r ! 5)) (fadd (r ! 6) (r ! 7)))
      in foldl fadd res rest)"

function pairwise_sum :: "real list \<Rightarrow> real" where
  "pairwise_sum xs =
     (let n = length xs
      in if n < 8 then foldl fadd 0 xs
         else if n \<le> 128 then block_sum xs
         else (let n2 = n div 2 - (n div 2) mod 8
               in fadd (pairwise_sum (take n2 xs)) (pairwise_sum (drop n2 xs))))"
  by pat_completeness auto
termination
  by (relation "measure length") auto

text \<open>
  \<^verbatim>\<open>numpy.nanmean\<close> and \<^verbatim>\<open>numpy.nanstd\<close> (default \<^verbatim>\<open>ddof=0\<close>) on a one-dimensional array.
  The mean is the sum divided by the number of values. \<^verbatim>\<open>nanstd\<close> is the square root of
  \<^verbatim>\<open>nanvar\<close>, which subtracts the mean from each value, squares the differences, sums them
  and divides by the number of values. Their result is NaN on an array without values,
  which is \<open>None\<close> here; no entry of the window is a NaN, so no entry is skipped.
\<close>

definition nanmean :: "real list \<Rightarrow> real option" where
  "nanmean arr =
     (if arr = [] then None else Some (fdiv (pairwise_sum arr) (real (length arr))))"

definition nanvar :: "real list \<Rightarrow> real option" where
  "nanvar arr =
     (case nanmean arr of
        None \<Rightarrow> None
      | Some avg \<Rightarrow>
          (let dev = map (\<lambda>x. fsub x avg) arr;
               sqr = map (\<lambda>d. fmul d d) dev
           in Some (fdiv (pairwise_sum sqr) (real (length arr)))))"

definition nanstd :: "real list \<Rightarrow> real option" where
  "nanstd arr = map_option fsqrt (nanvar arr)"

text \<open>
  \<^verbatim>\<open>compute_alpha\<close> returns the signal or the exception, and the calculator as the call
  leaves it: the purge has happened when \<^verbatim>\<open>compute_raw_imbalance\<close> raises, the append has
  not.
\<close>

definition compute_alpha ::
  "OBICalculator \<Rightarrow> int \<Rightarrow> book_side \<Rightarrow> book_side \<Rightarrow> (py_error + real) \<times> OBICalculator" where
  "compute_alpha c ts bids asks =
     (let cp = purge_expired c ts
      in case compute_raw_imbalance cp bids asks of
           Inl e \<Rightarrow> (Inl e, cp)
         | Inr raw \<Rightarrow>
             (let c2 = cp\<lparr>history := history cp @ [(ts, raw)]\<rparr>;
                  arr = map snd (history c2);
                  m = nanmean arr;
                  s = nanstd arr;
                  alpha = (case (m, s) of
                             (Some m, Some s) \<Rightarrow> (if s = 0 then 0 else fdiv (fsub raw m) s)
                           | _ \<Rightarrow> 0)
              in (Inr alpha, c2)))"

section \<open>Python library functions used by \<^verbatim>\<open>src/strategy.py\<close>\<close>

text \<open>
  \<^verbatim>\<open>float(f"{x:.{p}f}")\<close>: the value is printed with \<open>p\<close> digits after the decimal point,
  correctly rounded with ties to even, and read back. A negative \<open>p\<close> makes the format
  specification \<^verbatim>\<open>.-1f\<close>, which raises \<^verbatim>\<open>ValueError\<close>.
\<close>

definition format_fixed :: "int \<Rightarrow> real \<Rightarrow> py_error + real" where
  "format_fixed p x =
     (if p < 0 then Inl ValueError
      else Inr (of_int (py_round (x * 10 ^ nat p)) / 10 ^ nat p))"

text \<open>\<^verbatim>\<open>str.lower()\<close> on ASCII text.\<close>

definition lower_char :: "char \<Rightarrow> char" where
  "lower_char ch =
     (let n = (of_char ch :: nat)
      in if 65 \<le> n \<and> n \<le> 90 then char_of (n + 32) else ch)"

definition lower :: "string \<Rightarrow> string" where
  "lower s = map lower_char s"

section \<open>\<^verbatim>\<open>src/bean/types.py\<close>\<close>

text \<open>
  The dataclass \<^verbatim>\<open>TickContext\<close>: four fields given at construction and eight
  \<^verbatim>\<open>Optional\<close> fields, \<^verbatim>\<open>None\<close> until a stage of the pipeline sets them.
\<close>

record TickContext =
  ts :: int
  bids :: book_side
  asks :: book_side
  alpha :: real
  mid_price :: "real option"
  bid_price :: "real option"
  ask_price :: "real option"
  bid_tick :: "int option"
  ask_tick :: "int option"
  position :: "real option"
  buy_qty :: "real option"
  sell_qty :: "real option"

text \<open>\<^verbatim>\<open>TickContext(ts=ts, bids=bids, asks=asks, alpha=alpha)\<close>.\<close>

definition new_TickContext :: "int \<Rightarrow> book_side \<Rightarrow> book_side \<Rightarrow> real \<Rightarrow> TickContext" where
  "new_TickContext t b a al =
     \<lparr>ts = t, bids = b, asks = a, alpha = al, mid_price = None, bid_price = None,
      ask_price = None, bid_tick = None, ask_tick = None, position = None,
      buy_qty = None, sell_qty = None\<rparr>"

text \<open>What a method hands to the outside, in call order.\<close>

record OrderRequest =
  req_symbol :: string
  req_side :: string
  req_type :: string
  req_amount :: real
  req_price :: "real option"
  req_timeInForce :: string

datatype event =
    CancelAllOrders string
  | CreateOrders "OrderRequest list"
  | LogRecord string TickContext

text \<open>
  \<^verbatim>\<open>TickContext.log(level="INFO")\<close> writes one record of the given level. The summary line
  formats \<^verbatim>\<open>mid_price\<close>, the best bid and ask (\<^verbatim>\<open>None\<close> on an empty side), \<^verbatim>\<open>position\<close>,
  the two prices and the two quantities with a float format, which raises \<^verbatim>\<open>TypeError\<close>
  on \<^verbatim>\<open>None\<close>. The timestamp is taken to be in the range of \<^verbatim>\<open>datetime.fromtimestamp\<close>.
\<close>

definition TickContext_log :: "TickContext \<Rightarrow> string \<Rightarrow> py_error + event" where
  "TickContext_log ctx level =
     (if mid_price ctx = None \<or> bids ctx = [] \<or> asks ctx = [] \<or> position ctx = None
         \<or> bid_price ctx = None \<or> buy_qty ctx = None
         \<or> ask_price ctx = None \<or> sell_qty ctx = None
      then Inl TypeError
      else Inr (LogRecord level ctx))"

section \<open>\<^verbatim>\<open>src/strategy.py\<close>\<close>

text \<open>
  \<^verbatim>\<open>MarketMakingStrategy\<close> as \<^verbatim>\<open>initialize()\<close> leaves it: \<^verbatim>\<open>tick_size\<close> and \<^verbatim>\<open>precision\<close>
  are set. No method below assigns a field of the strategy.
\<close>

record MarketMakingStrategy =
  symbol :: string
  order_qty :: real
  c1 :: real
  half_spread :: real
  skew :: real
  max_position_btc :: real
  price_delta_threshold :: real
  last_mid :: "real option"
  tick_size :: real
  precision :: int

text \<open>
  The end of \<^verbatim>\<open>initialize\<close> (steps 4 and 5), from the tick size that the market metadata
  gave: a tick size that is not positive raises \<^verbatim>\<open>RuntimeError\<close>, otherwise
  \<^verbatim>\<open>precision = int(round(-math.log10(tick_size)))\<close>.
\<close>

definition initialize_precision :: "real \<Rightarrow> py_error + real \<times> int" where
  "initialize_precision tsz =
     (if tsz \<le> 0 then Inl RuntimeError
      else Inr (tsz, py_round (- log 10 tsz)))"

text \<open>
  The exchange client's data. A position of \<^verbatim>\<open>fetch_positions()\<close>: the keys \<^verbatim>\<open>symbol\<close>,
  \<^verbatim>\<open>info.positionAmt\<close> (already converted by \<^verbatim>\<open>float\<close>), \<^verbatim>\<open>contracts\<close> and \<^verbatim>\<open>side\<close>, each
  \<open>None\<close> when the key is missing. A resting order of \<^verbatim>\<open>fetch_open_orders()\<close>: the keys
  \<^verbatim>\<open>side\<close> and \<^verbatim>\<open>price\<close>.
\<close>

record Position =
  pos_symbol :: "string option"
  pos_positionAmt :: "real option"
  pos_contracts :: "real option"
  pos_side :: "string option"

record Order =
  ord_side :: "string option"
  ord_price :: "real option"

text \<open>
  The replies of the exchange in one tick: the two reads return a list or raise, the two
  writes return (\<open>None\<close>) or raise.
\<close>

record ExchangeReplies =
  fetch_positions_reply :: "py_error + Position list"
  fetch_open_orders_reply :: "py_error + Order list"
  cancel_all_orders_reply :: "py_error option"
  create_orders_reply :: "py_error option"

text \<open>
  The loop over \<^verbatim>\<open>all_positions\<close> in \<^verbatim>\<open>calculate_prices\<close>: the first entry of the
  strategy's symbol decides and ends the loop; without one the position stays 0.0.
\<close>

fun find_position :: "string \<Rightarrow> Position list \<Rightarrow> real" where
  "find_position name [] = 0"
| "find_position name (pos_info # rest) =
     (if pos_symbol pos_info = Some name then
        (case pos_positionAmt pos_info of
           Some raw_amt \<Rightarrow> raw_amt
         | None \<Rightarrow>
             (let cnt = (case pos_contracts pos_info of None \<Rightarrow> 0 | Some x \<Rightarrow> x);
                  sd = lower (case pos_side pos_info of None \<Rightarrow> [] | Some x \<Rightarrow> x)
              in if sd = ''short'' then - cnt else cnt))
      else find_position name rest)"

definition calculate_prices ::
  "MarketMakingStrategy \<Rightarrow> ExchangeReplies \<Rightarrow> TickContext \<Rightarrow> py_error + TickContext" where
  "calculate_prices self ex ctx =
     (let best_bid = (case bids ctx of [] \<Rightarrow> 0 | (p, _) # _ \<Rightarrow> p);
          best_ask = (case asks ctx of [] \<Rightarrow> 0 | (p, _) # _ \<Rightarrow> p);
          mid = (best_bid + best_ask) / 2;
          fair_price = mid + c1 self * alpha ctx
      in case fetch_positions_reply ex of
           Inl e \<Rightarrow> Inl e
         | Inr all_positions \<Rightarrow>
             (let pos = find_position (symbol self) all_positions;
                  normalized_position = (if order_qty self \<noteq> 0 then pos / order_qty self else 0);
                  reservation_price = fair_price - skew self * normalized_position;
                  raw_bid_price = reservation_price - half_spread self;
                  raw_bid_price = (if raw_bid_price \<ge> best_bid then best_bid - tick_size self
                                   else raw_bid_price);
                  raw_ask_price = reservation_price + half_spread self;
                  raw_ask_price = (if raw_ask_price \<le> best_ask then best_ask + tick_size self
                                   else raw_ask_price)
              in if tick_size self = 0 then Inl ZeroDivisionError
                 else
                   (let btick = \<lfloor>raw_bid_price / tick_size self\<rfloor>;
                        atick = \<lceil>raw_ask_price / tick_size self\<rceil>
                    in case format_fixed (precision self) (of_int btick * tick_size self) of
                         Inl e \<Rightarrow> Inl e
                       | Inr bprice \<Rightarrow>
                           (case format_fixed (precision self) (of_int atick * tick_size self) of
                              Inl e \<Rightarrow> Inl e
                            | Inr aprice \<Rightarrow>
                                Inr (ctx\<lparr>bid_price := Some bprice, ask_price := Some aprice,
                                         bid_tick := Some btick, ask_tick := Some atick,
                                         mid_price := Some mid, position := Some pos\<rparr>)))))"

text \<open>
  \<^verbatim>\<open>manage_orders\<close>, in four parts. First the tick of a resting order,
  \<^verbatim>\<open>int(round(float(order.get("price", 0.0)) / self.tick_size))\<close>, and the two sets the
  loop over \<^verbatim>\<open>open_orders\<close> fills.
\<close>

definition order_tick :: "real \<Rightarrow> Order \<Rightarrow> int" where
  "order_tick tsz ord =
     py_round ((case ord_price ord of None \<Rightarrow> 0 | Some p \<Rightarrow> p) / tsz)"

definition existing_ticks :: "string \<Rightarrow> real \<Rightarrow> Order list \<Rightarrow> int set" where
  "existing_ticks sd tsz open_orders =
     set (map (order_tick tsz) (filter (\<lambda>ord. ord_side ord = Some sd) open_orders))"

text \<open>The remaining quantity of each side, from \<^verbatim>\<open>order_qty\<close> and the position.\<close>

definition remaining_qty :: "real \<Rightarrow> real \<Rightarrow> real \<times> real" where
  "remaining_qty oqty pos =
     (if pos > 0 then (max (oqty - pos) 0, oqty)
      else if pos < 0 then (oqty, max (oqty - \<bar>pos\<bar>) 0)
      else (oqty, oqty))"

text \<open>The list \<^verbatim>\<open>to_create\<close>: the buy order first, then the sell order.\<close>

definition limit_order :: "string \<Rightarrow> string \<Rightarrow> real \<Rightarrow> real option \<Rightarrow> OrderRequest" where
  "limit_order name sd qty price =
     \<lparr>req_symbol = name, req_side = sd, req_type = ''limit'', req_amount = qty,
      req_price = price, req_timeInForce = ''GTC''\<rparr>"

definition orders_to_create ::
  "MarketMakingStrategy \<Rightarrow> Order list \<Rightarrow> TickContext \<Rightarrow> real \<Rightarrow> real \<Rightarrow> OrderRequest list" where
  "orders_to_create self open_orders ctx bqty sqty =
     (let existing_buy_ticks = existing_ticks ''buy'' (tick_size self) open_orders;
          existing_sell_ticks = existing_ticks ''sell'' (tick_size self) open_orders
      in (if bid_tick ctx \<notin> Some ` existing_buy_ticks \<and> bqty > 0
          then [limit_order (symbol self) ''buy'' bqty (bid_price ctx)] else [])
         @ (if ask_tick ctx \<notin> Some ` existing_sell_ticks \<and> sqty > 0
            then [limit_order (symbol self) ''sell'' sqty (ask_price ctx)] else []))"

text \<open>
  The method itself. A failed \<^verbatim>\<open>fetch_open_orders\<close> is caught and replaced by the empty
  list. The division by \<^verbatim>\<open>tick_size\<close> happens once per resting order; the comparison of
  \<^verbatim>\<open>position\<close> with 0 raises \<^verbatim>\<open>TypeError\<close> on \<^verbatim>\<open>None\<close>. With a batch to create, the
  method awaits \<^verbatim>\<open>cancel_all_orders\<close>, then \<^verbatim>\<open>create_orders\<close>, then stores the two
  quantities in the context and logs it; an exception of one of these ends the method
  there. The result is the events so far and the context or the exception.
\<close>

definition manage_orders ::
  "MarketMakingStrategy \<Rightarrow> ExchangeReplies \<Rightarrow> TickContext \<Rightarrow> event list \<times> (py_error + TickContext)" where
  "manage_orders self ex ctx =
     (let open_orders = (case fetch_open_orders_reply ex of Inl e \<Rightarrow> [] | Inr os \<Rightarrow> os)
      in if open_orders \<noteq> [] \<and> tick_size self = 0 then ([], Inl ZeroDivisionError)
         else
           (case position ctx of
              None \<Rightarrow> ([], Inl TypeError)
            | Some pos \<Rightarrow>
                (let (bqty, sqty) = remaining_qty (order_qty self) pos;
                     to_create = orders_to_create self open_orders ctx bqty sqty
                 in if to_create = [] then ([], Inr ctx)
                    else
                      (case cancel_all_orders_reply ex of
                         Some e \<Rightarrow> ([CancelAllOrders (symbol self)], Inl e)
                       | None \<Rightarrow>
                           (case create_orders_reply ex of
                              Some e \<Rightarrow>
                                ([CancelAllOrders (symbol self), CreateOrders to_create], Inl e)
                            | None \<Rightarrow>
                                (let ctx2 = ctx\<lparr>buy_qty := Some bqty, sell_qty := Some sqty\<rparr>
                                 in case TickContext_log ctx2 ''INFO'' of
                                      Inl e \<Rightarrow>
                                        ([CancelAllOrders (symbol self), CreateOrders to_create],
                                         Inl e)
                                    | Inr record \<Rightarrow>
                                        ([CancelAllOrders (symbol self), CreateOrders to_create,
                                          record],
                                         Inr ctx2)))))))"

text \<open>\<^verbatim>\<open>on_tick\<close>: a new context, \<^verbatim>\<open>calculate_prices\<close>, then \<^verbatim>\<open>manage_orders\<close>.\<close>

definition on_tick ::
  "MarketMakingStrategy \<Rightarrow> ExchangeReplies \<Rightarrow> int \<Rightarrow> book_side \<Rightarrow> book_side \<Rightarrow> real
     \<Rightarrow> event list \<times> (py_error + TickContext)" where
  "on_tick self ex t b a al =
     (case calculate_prices self ex (new_TickContext t b a al) of
        Inl e \<Rightarrow> ([], Inl e)
      | Inr ctx \<Rightarrow> manage_orders self ex ctx)"

section \<open>Notions of the specification\<close>





text \<open>
  The best price of a side as \<^verbatim>\<open>calculate_prices\<close> reads it: the price of the first level,
  0.0 on an empty side.
\<close>

definition best_price :: "book_side \<Rightarrow> real" where
  "best_price side = (case side of [] \<Rightarrow> 0 | (p, q) # rest \<Rightarrow> p)"

text \<open>The levels of the log records among the events of a pass, in order.\<close>

fun log_levels :: "event list \<Rightarrow> string list" where
  "log_levels [] = []"
| "log_levels (LogRecord level ctx # evs) = level # log_levels evs"
| "log_levels (ev # evs) = log_levels evs"

text \<open>The order requests that the events of a pass sent to \<^verbatim>\<open>create_orders\<close>, in order.\<close>

fun created_requests :: "event list \<Rightarrow> OrderRequest list" where
  "created_requests [] = []"
| "created_requests (CreateOrders batch # evs) = batch @ created_requests evs"
| "created_requests (ev # evs) = created_requests evs"

text \<open>
  The orders that the events of a pass created, as the resting orders a later
  \<^verbatim>\<open>fetch_open_orders\<close> reports them: side and price of each request.
\<close>

fun created_orders :: "event list \<Rightarrow> Order list" where
  "created_orders [] = []"
| "created_orders (CreateOrders batch # evs) =
     map (\<lambda>r. \<lparr>ord_side = Some (req_side r), ord_price = req_price r\<rparr>) batch @ created_orders evs"
| "created_orders (ev # evs) = created_orders evs"

section \<open>Concrete inputs\<close>

text \<open>
  The example of the specification: tick size 0.1 with one decimal digit, \<^verbatim>\<open>order_qty\<close> 1,
  \<^verbatim>\<open>c1\<close> 2, \<^verbatim>\<open>half_spread\<close> 0.5, \<^verbatim>\<open>skew\<close> 0.1; bids at 100 and 99, asks at 101 and 102,
  signal 0, no position; an exchange that answers every call and has no resting order.
  \<open>example_context\<close> is the context \<^verbatim>\<open>calculate_prices\<close> returns on it
  (\<open>example_context_priced\<close>).
\<close>

definition example_strategy :: MarketMakingStrategy where
  "example_strategy =
     \<lparr>symbol = ''BTC/USDT:USDT'', order_qty = 1, c1 = 2, half_spread = 1 / 2, skew = 1 / 10,
      max_position_btc = 1 / 100, price_delta_threshold = 1 / 2, last_mid = None,
      tick_size = 1 / 10, precision = 1\<rparr>"

definition example_replies :: ExchangeReplies where
  "example_replies =
     \<lparr>fetch_positions_reply = Inr [], fetch_open_orders_reply = Inr [],
      cancel_all_orders_reply = None, create_orders_reply = None\<rparr>"

definition example_context :: TickContext where
  "example_context =
     \<lparr>ts = 0, bids = [(100, 2), (99, 3)], asks = [(101, 1), (102, 4)], alpha = 0,
      mid_price = Some (201 / 2), bid_price = Some (999 / 10), ask_price = Some (1011 / 10),
      bid_tick = Some 999, ask_tick = Some 1011, position = Some 0,
      buy_qty = None, sell_qty = None\<rparr>"

section \<open>Rounding to binary64\<close>



lemma py_round_of_int: "py_round (of_int k) = k"
  by (simp add: py_round_def)







section \<open>The imbalance signal\<close>

subsection \<open>The raw imbalance\<close>















subsection \<open>The window and the signal\<close>

lemma pop_expired_sorted:
  "sorted (map fst h) \<Longrightarrow> (t', r) \<in> set (pop_expired cutoff h) \<Longrightarrow> cutoff \<le> t'"
proof (induction h)
  case Nil
  then show ?case by simp
next
  case (Cons x h)
  obtain tx rx where x: "x = (tx, rx)" by (cases x)
  show ?case
  proof (cases "tx < cutoff")
    case True
    with Cons x show ?thesis by simp
  next
    case False
    with Cons.prems x have "t' = tx \<or> tx \<le> t'" by force
    with False show ?thesis by linarith
  qed
qed

lemma pop_expired_keeps_sorted:
  "sorted (map fst h) \<Longrightarrow> sorted (map fst (pop_expired cutoff h))"
  by (induction h) auto

lemma pop_expired_subset: "set (pop_expired cutoff h) \<subseteq> set h"
  by (induction h) (auto split: if_splits)

lemma compute_alpha_error:
  "B = [] \<or> A = [] \<Longrightarrow>
     compute_alpha c t B A = (Inl ''IndexError'', c\<lparr>history := pop_expired (t - window_ms c) (history c)\<rparr>)"
  by (auto simp: compute_alpha_def purge_expired_def compute_raw_imbalance_def Let_def
      split: list.splits)

lemma raw_imbalance_depth_only:
  "depth c' = depth c \<Longrightarrow> compute_raw_imbalance c' B A = compute_raw_imbalance c B A"
  by (simp add: compute_raw_imbalance_def Let_def split: list.splits prod.splits)

lemma raw_imbalance_returns:
  "B \<noteq> [] \<Longrightarrow> A \<noteq> [] \<Longrightarrow> \<exists>raw. compute_raw_imbalance c B A = Inr raw"
  by (auto simp: compute_raw_imbalance_def Let_def split: list.splits)

lemma compute_alpha_returns:
  assumes "compute_raw_imbalance c B A = Inr raw"
  shows "compute_alpha c t B A =
     (Inr (let arr = map snd (pop_expired (t - window_ms c) (history c)) @ [raw]
           in case (nanmean arr, nanstd arr) of
                (Some m, Some s) \<Rightarrow> (if s = 0 then 0 else fdiv (fsub raw m) s)
              | _ \<Rightarrow> 0),
      c\<lparr>history := pop_expired (t - window_ms c) (history c) @ [(t, raw)]\<rparr>)"
proof -
  have "compute_raw_imbalance (purge_expired c t) B A = Inr raw"
    using assms raw_imbalance_depth_only [of "purge_expired c t" c B A]
    by (simp add: purge_expired_def)
  then show ?thesis
    by (simp add: compute_alpha_def Let_def purge_expired_def split: option.splits)
qed

lemma compute_alpha_keeps_order:
  assumes "sorted (map fst (history c))" and "\<forall>t' \<in> fst ` set (history c). t' \<le> t"
  shows "sorted (map fst (history (snd (compute_alpha c t B A))))"
proof (cases "B = [] \<or> A = []")
  case True
  show ?thesis
    unfolding compute_alpha_error [OF True]
    using pop_expired_keeps_sorted [OF assms(1)] by simp
next
  case False
  then obtain raw where "compute_raw_imbalance c B A = Inr raw"
    using raw_imbalance_returns by blast
  from compute_alpha_returns [OF this] show ?thesis
    using pop_expired_keeps_sorted [OF assms(1)] assms(2) pop_expired_subset [of "t - window_ms c" "history c"]
    by (auto simp: sorted_append)
qed

text \<open>
  With a window duration that is not negative and the retained samples in non-decreasing
  timestamp order, the head-first purge does remove every expired sample: after
  \<open>compute_alpha\<close> at timestamp \<open>t\<close> every retained sample has a timestamp of at least
  \<open>t - window_ms\<close>. The purge comes before the append in every call.
\<close>

lemma window_invariant_if_ordered:
  assumes "0 \<le> window_ms c" and "sorted (map fst (history c))"
  shows "(\<forall>(t', r) \<in> set (history (snd (compute_alpha c t B A))). t - window_ms c \<le> t')
       \<and> (case fst (compute_alpha c t B A) of
            Inl e \<Rightarrow> history (snd (compute_alpha c t B A))
                        = pop_expired (t - window_ms c) (history c)
          | Inr a \<Rightarrow> (\<exists>raw. history (snd (compute_alpha c t B A))
                        = pop_expired (t - window_ms c) (history c) @ [(t, raw)]))"
proof (cases "B = [] \<or> A = []")
  case True
  show ?thesis
    unfolding compute_alpha_error [OF True]
    using pop_expired_sorted [OF assms(2)] by auto
next
  case False
  then obtain raw where "compute_raw_imbalance c B A = Inr raw"
    using raw_imbalance_returns by blast
  from compute_alpha_returns [OF this] show ?thesis
    using pop_expired_sorted [OF assms(2)] assms(1) by auto
qed

lemma raw_two_minus_one:
  "depth c = fl (1 / 40) \<Longrightarrow> compute_raw_imbalance c [(100, 2)] [(101, 1)] = Inr 1"
proof -
  assume d: "depth c = fl (1 / 40)"
  have "compute_raw_imbalance \<lparr>depth = fl (1 / 40), window_ms = 0, history = []\<rparr>
      [(100, 2)] [(101, 1)] = Inr 1"
    by code_simp
  then show ?thesis
    using raw_imbalance_depth_only [of c "\<lparr>depth = fl (1 / 40), window_ms = 0, history = []\<rparr>"] d
    by simp
qed

text \<open>
  C3. The claim fails on the code. The docstring of \<^verbatim>\<open>_purge_expired\<close> promises to pop
  all elements older than the cutoff, so that only the data of the last window remain;
  the loop stops at the first head that is not expired. From an empty window, snapshots
  at the timestamps 100, 50 and 105 with a window of 10 leave the sample of timestamp 50
  in the window after the third call, below the cutoff 95.
\<close>

theorem purge_leaves_expired_sample:
  "history (snd (compute_alpha (snd (compute_alpha (snd (compute_alpha
       \<lparr>depth = fl (1 / 40), window_ms = 10, history = []\<rparr>
       100 [(100, 2)] [(101, 1)])) 50 [(100, 2)] [(101, 1)])) 105 [(100, 2)] [(101, 1)]))
     = [(100, 1), (50, 1), (105, 1)]
   \<and> \<not> (105 - window_ms \<lparr>depth = fl (1 / 40), window_ms = 10, history = []\<rparr> \<le> 50)"
  by (simp add: compute_alpha_returns [OF raw_two_minus_one])

subsection \<open>A window of equal samples\<close>

lemma fsqrt_zero: "fsqrt 0 = 0"
  by (simp add: fsqrt_def fl_def)

lemma fsqrt_two_power_minus_106: "fsqrt (1 / 2 ^ 106) = 1 / 2 ^ 53"
proof -
  have s: "sqrt (1 / 2 ^ 106) = 1 / (2::real) ^ 53"
    by (rule real_sqrt_unique) (simp_all add: power2_eq_square)
  have f: "fl (1 / 2 ^ 53) = 1 / 2 ^ 53" by code_simp
  show ?thesis by (simp only: fsqrt_def s f)
qed

lemma raw_seven_tenths:
  "depth c = fl (1 / 40) \<Longrightarrow>
     compute_raw_imbalance c [(100, 1)] [(101, fl (3 / 10))] = Inr (fl (7 / 10))"
proof -
  assume d: "depth c = fl (1 / 40)"
  have "compute_raw_imbalance \<lparr>depth = fl (1 / 40), window_ms = 0, history = []\<rparr>
      [(100, 1)] [(101, fl (3 / 10))] = Inr (fl (7 / 10))"
    by code_simp
  then show ?thesis
    using raw_imbalance_depth_only [of c "\<lparr>depth = fl (1 / 40), window_ms = 0, history = []\<rparr>"] d
    by simp
qed

lemma constant_window_statistics:
  "nanmean [fl (7 / 10)] = Some (fl (7 / 10))"
  "nanvar [fl (7 / 10)] = Some 0"
  "nanmean [fl (7 / 10), fl (7 / 10)] = Some (fl (7 / 10))"
  "nanvar [fl (7 / 10), fl (7 / 10)] = Some 0"
  "nanmean [fl (7 / 10), fl (7 / 10), fl (7 / 10)] = Some (6305039478318693 / 2 ^ 53)"
  "nanvar [fl (7 / 10), fl (7 / 10), fl (7 / 10)] = Some (1 / 2 ^ 106)"
  "fdiv (fsub (fl (7 / 10)) (6305039478318693 / 2 ^ 53)) (1 / 2 ^ 53) = 1"
  "fl (7 / 10) = 3152519739159347 / 2 ^ 52"
  by code_simp+

text \<open>
  C5. The claim fails on the code. The comment above the test \<^verbatim>\<open>s == 0\<close> says that the
  signal is 0 when the window does not vary. With the depth 0.025 and the window of ten
  minutes, three snapshots with a bid of 1 at 100 and an ask of 0.3 at 101, one second
  apart, each have the raw imbalance \<open>1 - 0.3\<close>, the binary64 number 0.7. After the third,
  the window holds three equal samples: their population standard deviation is 0. The sum
  \<open>(0.7 + 0.7) + 0.7\<close> is rounded, so \<^verbatim>\<open>nanmean\<close> is \<open>1 / 2 ^ 53\<close> below the samples,
  \<^verbatim>\<open>nanstd\<close> is \<open>1 / 2 ^ 53\<close> and not 0, and the third signal is 1.
\<close>

theorem constant_window_signal_is_one:
  "(let c0 = \<lparr>depth = fl (1 / 40), window_ms = 600000, history = []\<rparr>;
        B = [(100, 1)];
        A = [(101, fl (3 / 10))];
        c1 = snd (compute_alpha c0 0 B A);
        c2 = snd (compute_alpha c1 1000 B A);
        c3 = snd (compute_alpha c2 2000 B A)
    in history c3 = [(0, fl (7 / 10)), (1000, fl (7 / 10)), (2000, fl (7 / 10))]
       \<and> fst (compute_alpha c0 0 B A) = Inr 0
       \<and> fst (compute_alpha c1 1000 B A) = Inr 0
       \<and> fst (compute_alpha c2 2000 B A) = Inr 1)"
proof -
  define r :: real where "r = fl (7 / 10)"
  define m :: real where "m = 6305039478318693 / 2 ^ 53"
  define s :: real where "s = 1 / 2 ^ 53"
  note st = constant_window_statistics [folded r_def]
  have raw: "\<And>c. depth c = fl (1 / 40) \<Longrightarrow>
      compute_raw_imbalance c [(100, 1)] [(101, fl (3 / 10))] = Inr r"
    unfolding r_def by (rule raw_seven_tenths)
  have m1: "nanmean [r] = Some r" and m2: "nanmean [r, r] = Some r"
    by (rule st(1), rule st(3))
  have m3: "nanmean [r, r, r] = Some m"
    unfolding m_def by (rule st(5))
  have s1: "nanstd [r] = Some 0" and s2: "nanstd [r, r] = Some 0"
    by (simp_all only: nanstd_def st(2) st(4) option.map fsqrt_zero)
  have s3: "nanstd [r, r, r] = Some s"
    by (simp only: nanstd_def st(6) option.map fsqrt_two_power_minus_106 s_def)
  have nz: "s \<noteq> 0" by (simp add: s_def)
  have one: "fdiv (fsub r m) s = 1"
    unfolding m_def s_def by (rule st(7))
  show ?thesis
    unfolding r_def [symmetric]
    by (simp add: Let_def compute_alpha_returns [OF raw] m1 m2 m3 s1 s2 s3 nz one)
qed

subsection \<open>An empty side\<close>

text \<open>
  C7, as amended. With an empty bid side or an empty ask side \<open>compute_alpha\<close> raises
  \<^verbatim>\<open>IndexError\<close> and no other exception; with both sides non-empty it returns a signal.
\<close>

theorem empty_side_raises_IndexError:
  "(B = [] \<or> A = [] \<longrightarrow> fst (compute_alpha c t B A) = Inl ''IndexError'')
   \<and> (B \<noteq> [] \<and> A \<noteq> [] \<longrightarrow> (\<exists>a. fst (compute_alpha c t B A) = Inr a))"
proof (intro conjI impI)
  assume "B = [] \<or> A = []"
  then show "fst (compute_alpha c t B A) = Inl ''IndexError''"
    by (simp add: compute_alpha_error)
next
  assume "B \<noteq> [] \<and> A \<noteq> []"
  then obtain raw where "compute_raw_imbalance c B A = Inr raw"
    using raw_imbalance_returns by blast
  then show "\<exists>a. fst (compute_alpha c t B A) = Inr a"
    by (simp add: compute_alpha_returns)
qed

lemma single_sample_statistics: "nanmean [1] = Some 1" "nanvar [1] = Some 0"
  by code_simp+

theorem empty_side_raises_IndexError_witness:
  "fst (compute_alpha \<lparr>depth = fl (1 / 40), window_ms = 10, history = []\<rparr> 5 [] [(101, 1)])
     = Inl ''IndexError''
   \<and> fst (compute_alpha \<lparr>depth = fl (1 / 40), window_ms = 10, history = []\<rparr> 5 [(100, 2)] [(101, 1)])
     = Inr 0"
  using empty_side_raises_IndexError [of "[]" "[(101, 1)]" "\<lparr>depth = fl (1 / 40), window_ms = 10, history = []\<rparr>" 5]
    empty_side_raises_IndexError [of "[(100, 2)]" "[(101, 1)]" "\<lparr>depth = fl (1 / 40), window_ms = 10, history = []\<rparr>" 5]
  by (simp add: compute_alpha_error compute_alpha_returns [OF raw_two_minus_one] nanstd_def
      single_sample_statistics fsqrt_zero)

text \<open>
  The exception is not the \<^verbatim>\<open>InsufficientDepthError\<close> of the specification, which no
  source file defines.
\<close>

theorem empty_side_error_counterexample:
  "fst (compute_alpha \<lparr>depth = fl (1 / 40), window_ms = 10, history = []\<rparr> 5 [] [(101, 1)])
     \<noteq> Inl ''InsufficientDepthError''"
  by (simp add: compute_alpha_error)

section \<open>Quoting\<close>

lemma log10_2_bounds: "0 < log 10 2" "log 10 2 < 1 / 2"
proof -
  show "0 < log 10 (2::real)" by simp
  have "(2::real) < sqrt 10" by (rule real_less_rsqrt) simp
  then have "log 10 2 < log 10 (sqrt 10)" by simp
  also have "log 10 (sqrt 10) = 1 / 2" by (simp add: log_def ln_sqrt)
  finally show "log 10 2 < 1 / 2" .
qed

lemma existing_ticks_Nil: "existing_ticks sd tsz [] = {}"
  by (simp add: existing_ticks_def)

lemma existing_ticks_Cons:
  "existing_ticks sd tsz (ord # rest) =
     (if ord_side ord = Some sd then insert (order_tick tsz ord) (existing_ticks sd tsz rest)
      else existing_ticks sd tsz rest)"
  by (simp add: existing_ticks_def)

lemmas eval_defs = calculate_prices_def format_fixed_def py_round_def Let_def
  manage_orders_def orders_to_create_def existing_ticks_Nil existing_ticks_Cons order_tick_def
  remaining_qty_def limit_order_def TickContext_log_def new_TickContext_def on_tick_def
  example_strategy_def example_replies_def example_context_def

lemma example_context_priced:
  "calculate_prices example_strategy example_replies
     (new_TickContext 0 [(100, 2), (99, 3)] [(101, 1), (102, 4)] 0) = Inr example_context"
  by (simp add: eval_defs)

text \<open>
  The initialisation gives the two tick sizes used below their number of digits: one digit
  for 0.1, none for 0.5.
\<close>

lemma initialize_precision_tenth: "initialize_precision (1 / 10) = Inr (1 / 10, 1)"
proof -
  have "- log 10 (1 / 10) = (1::real)" by (simp add: log_divide)
  then show ?thesis by (simp add: initialize_precision_def py_round_of_int [of 1, simplified])
qed

lemma initialize_precision_half: "initialize_precision (1 / 2) = Inr (1 / 2, 0)"
proof -
  have e: "- log 10 (1 / 2) = log 10 2" by (simp add: log_divide)
  have f: "\<lfloor>log 10 2 :: real\<rfloor> = 0" using log10_2_bounds by (simp add: floor_eq_iff)
  have "py_round (- log 10 (1 / 2)) = 0"
    unfolding e py_round_def Let_def f using log10_2_bounds by simp
  then show ?thesis by (simp add: initialize_precision_def)
qed

text \<open>
  C1. The claim fails on the code. With the tick size 0.5 the initialisation sets
  \<^verbatim>\<open>precision\<close> to \<open>round(0.301) = 0\<close>; on a book with best bid 100 and best ask 102 both
  guards fire, the ticks are 199 and 205, the quantized prices 99.5 and 102.5, and printing
  them with no decimal digit gives the bid price 100 and the ask price 102: the best bid
  and the best ask themselves, not a price below and a price above.
\<close>

theorem non_crossing_fails_on_half_tick:
  "initialize_precision (1 / 2) = Inr (1 / 2, 0)
   \<and> calculate_prices (example_strategy\<lparr>tick_size := 1 / 2, precision := 0\<rparr>) example_replies
       (new_TickContext 0 [(100, 1)] [(102, 1)] 0)
     = Inr \<lparr>ts = 0, bids = [(100, 1)], asks = [(102, 1)], alpha = 0,
            mid_price = Some 101, bid_price = Some 100, ask_price = Some 102,
            bid_tick = Some 199, ask_tick = Some 205, position = Some 0,
            buy_qty = None, sell_qty = None\<rparr>"
  using initialize_precision_half by (simp add: eval_defs)

text \<open>
  C10. Whatever the two sides of the book, empty or not, \<open>calculate_prices\<close> returns a
  context when \<^verbatim>\<open>fetch_positions\<close> answers and the strategy is initialised with a positive
  tick size and a number of digits that is not negative: an empty side counts with the
  best price 0.0, so the mid price is half the best price of the other side; both prices
  and both ticks are set, and \<open>on_tick\<close> hands this context to \<open>manage_orders\<close>.
\<close>

theorem quoting_tolerates_empty_side:
  assumes "fetch_positions_reply ex = Inr all_positions"
    and "0 < tick_size self" and "0 \<le> precision self"
  shows "\<exists>ctx. calculate_prices self ex (new_TickContext t b a al) = Inr ctx
       \<and> (b = [] \<longrightarrow> mid_price ctx = Some ((0 + best_price a) / 2))
       \<and> (a = [] \<longrightarrow> mid_price ctx = Some ((best_price b + 0) / 2))
       \<and> bid_price ctx \<noteq> None \<and> ask_price ctx \<noteq> None
       \<and> bid_tick ctx \<noteq> None \<and> ask_tick ctx \<noteq> None
       \<and> position ctx = Some (find_position (symbol self) all_positions)
       \<and> on_tick self ex t b a al = manage_orders self ex ctx"
  using assms
  by (auto simp: calculate_prices_def on_tick_def format_fixed_def Let_def new_TickContext_def
      best_price_def)

theorem quoting_tolerates_empty_side_witness:
  "calculate_prices example_strategy example_replies (new_TickContext 0 [] [(101, 1), (102, 4)] 0)
     = Inr \<lparr>ts = 0, bids = [], asks = [(101, 1), (102, 4)], alpha = 0,
            mid_price = Some (101 / 2), bid_price = Some (- (1 / 10)), ask_price = Some (1011 / 10),
            bid_tick = Some (- 1), ask_tick = Some 1011, position = Some 0,
            buy_qty = None, sell_qty = None\<rparr>"
proof -
  have h1: "fetch_positions_reply example_replies = Inr []" by (simp add: example_replies_def)
  have h2: "0 < tick_size example_strategy" by (simp add: example_strategy_def)
  have h3: "0 \<le> precision example_strategy" by (simp add: example_strategy_def)
  have f: "\<lfloor>- 1 :: real\<rfloor> = - 1" by (simp add: floor_eq_iff)
  show ?thesis
    using quoting_tolerates_empty_side [OF h1 h2 h3, of 0 "[]" "[(101, 1), (102, 4)]" 0]
    by (simp add: eval_defs f)
qed

text \<open>
  On the empty bid side of the witness the pass sends its orders, the bid at the price
  -0.1, and then fails in \<^verbatim>\<open>ctx.log()\<close>, which formats the missing best bid.
\<close>

lemma on_tick_empty_bids_logs_TypeError:
  "on_tick example_strategy example_replies 0 [] [(101, 1), (102, 4)] 0
     = ([CancelAllOrders ''BTC/USDT:USDT'',
         CreateOrders [limit_order ''BTC/USDT:USDT'' ''buy'' 1 (Some (- (1 / 10))),
                       limit_order ''BTC/USDT:USDT'' ''sell'' 1 (Some (1011 / 10))]],
        Inl TypeError)"
proof -
  have f: "\<lfloor>- 1 :: real\<rfloor> = - 1" by (simp add: floor_eq_iff)
  show ?thesis by (simp add: eval_defs f)
qed

section \<open>Order management\<close>

lemma remaining_qty_cases:
  "(0 < pos \<longrightarrow> remaining_qty oqty pos = (max (oqty - pos) 0, oqty))
   \<and> (pos < 0 \<longrightarrow> remaining_qty oqty pos = (oqty, max (oqty - \<bar>pos\<bar>) 0))
   \<and> (pos = 0 \<longrightarrow> remaining_qty oqty pos = (oqty, oqty))"
  by (simp add: remaining_qty_def)

lemma orders_to_create_sides:
  "r \<in> set (orders_to_create self open_orders ctx bqty sqty) \<Longrightarrow>
     (req_side r = ''buy'' \<and> req_amount r = bqty \<and> req_price r = bid_price ctx)
     \<or> (req_side r = ''sell'' \<and> req_amount r = sqty \<and> req_price r = ask_price ctx)"
  by (auto simp: orders_to_create_def limit_order_def Let_def split: if_splits)

lemma manage_orders_events:
  assumes "position ctx = Some pos"
    and "remaining_qty (order_qty self) pos = (bqty, sqty)"
    and "open_orders = (case fetch_open_orders_reply ex of Inl e \<Rightarrow> [] | Inr os \<Rightarrow> os)"
    and "open_orders = [] \<or> tick_size self \<noteq> 0"
    and "to_create = orders_to_create self open_orders ctx bqty sqty"
  shows "manage_orders self ex ctx =
     (if to_create = [] then ([], Inr ctx)
      else case cancel_all_orders_reply ex of
             Some e \<Rightarrow> ([CancelAllOrders (symbol self)], Inl e)
           | None \<Rightarrow>
              (case create_orders_reply ex of
                 Some e \<Rightarrow> ([CancelAllOrders (symbol self), CreateOrders to_create], Inl e)
               | None \<Rightarrow>
                  (case TickContext_log (ctx\<lparr>buy_qty := Some bqty, sell_qty := Some sqty\<rparr>) ''INFO'' of
                     Inl e \<Rightarrow> ([CancelAllOrders (symbol self), CreateOrders to_create], Inl e)
                   | Inr record \<Rightarrow>
                       ([CancelAllOrders (symbol self), CreateOrders to_create, record],
                        Inr (ctx\<lparr>buy_qty := Some bqty, sell_qty := Some sqty\<rparr>)))))"
  using assms by (auto simp: manage_orders_def Let_def split: option.splits sum.splits)

text \<open>
  C4. With the position \<open>pos\<close> of the context, the two quantities of \<open>manage_orders\<close> are
  \<open>max (order_qty - pos) 0\<close> to buy and \<open>order_qty\<close> to sell when \<open>pos > 0\<close>, \<open>order_qty\<close>
  to buy and \<open>max (order_qty - \<bar>pos\<bar>) 0\<close> to sell when \<open>pos < 0\<close>, and \<open>order_qty\<close> on both
  sides when \<open>pos = 0\<close>; every order the pass creates has the quantity of its side as its
  amount, and a pass that sent orders and returned has stored the two in the context.
\<close>

theorem close_before_open_sizes:
  assumes "position ctx = Some pos"
  shows
   "let (desired_buy_qty, desired_sell_qty) = remaining_qty (order_qty self) pos;
        (events, result) = manage_orders self ex ctx
    in (0 < pos \<longrightarrow> desired_buy_qty = max (order_qty self - pos) 0
                      \<and> desired_sell_qty = order_qty self)
       \<and> (pos < 0 \<longrightarrow> desired_sell_qty = max (order_qty self - \<bar>pos\<bar>) 0
                        \<and> desired_buy_qty = order_qty self)
       \<and> (pos = 0 \<longrightarrow> desired_buy_qty = order_qty self \<and> desired_sell_qty = order_qty self)
       \<and> (\<forall>batch r. CreateOrders batch \<in> set events \<and> r \<in> set batch \<longrightarrow>
             req_amount r = (if req_side r = ''buy'' then desired_buy_qty else desired_sell_qty))
       \<and> (\<forall>ctx'. events \<noteq> [] \<and> result = Inr ctx' \<longrightarrow>
             buy_qty ctx' = Some desired_buy_qty \<and> sell_qty ctx' = Some desired_sell_qty)"
proof -
  obtain bqty sqty where q: "remaining_qty (order_qty self) pos = (bqty, sqty)"
    by (cases "remaining_qty (order_qty self) pos")
  have amounts: "req_amount r = (if req_side r = ''buy'' then bqty else sqty)"
    if "r \<in> set (orders_to_create self open_orders ctx bqty sqty)" for r open_orders
    using orders_to_create_sides [OF that] by auto
  have sizes: "(0 < pos \<longrightarrow> bqty = max (order_qty self - pos) 0 \<and> sqty = order_qty self)
       \<and> (pos < 0 \<longrightarrow> sqty = max (order_qty self - \<bar>pos\<bar>) 0 \<and> bqty = order_qty self)
       \<and> (pos = 0 \<longrightarrow> bqty = order_qty self \<and> sqty = order_qty self)"
    using remaining_qty_cases [of pos "order_qty self"] q by auto
  have created: "\<forall>batch r. CreateOrders batch \<in> set (fst (manage_orders self ex ctx)) \<and> r \<in> set batch \<longrightarrow>
             req_amount r = (if req_side r = ''buy'' then bqty else sqty)"
    using assms q amounts
    by (auto simp: manage_orders_def Let_def TickContext_log_def split: option.splits sum.splits if_splits)
  have stored: "\<forall>ctx'. fst (manage_orders self ex ctx) \<noteq> [] \<and> snd (manage_orders self ex ctx) = Inr ctx' \<longrightarrow>
             buy_qty ctx' = Some bqty \<and> sell_qty ctx' = Some sqty"
    using assms q
    by (auto simp: manage_orders_def Let_def TickContext_log_def split: option.splits sum.splits if_splits)
  show ?thesis
    unfolding q prod.case Let_def
    using sizes created stored by (simp add: case_prod_beta)
qed

theorem close_before_open_sizes_witness:
  "remaining_qty 1 (2 / 5) = (3 / 5, 1) \<and> remaining_qty 1 (- (2 / 5)) = (1, 3 / 5)
   \<and> remaining_qty 1 0 = (1, 1) \<and> remaining_qty 1 3 = (0, 1)
   \<and> fst (manage_orders example_strategy example_replies (example_context\<lparr>position := Some (2 / 5)\<rparr>))
     = [CancelAllOrders ''BTC/USDT:USDT'',
        CreateOrders [limit_order ''BTC/USDT:USDT'' ''buy'' (3 / 5) (Some (999 / 10)),
                      limit_order ''BTC/USDT:USDT'' ''sell'' 1 (Some (1011 / 10))],
        LogRecord ''INFO'' (example_context\<lparr>position := Some (2 / 5), buy_qty := Some (3 / 5),
                                              sell_qty := Some 1\<rparr>)]"
proof -
  have h: "position (example_context\<lparr>position := Some (2 / 5)\<rparr>) = Some (2 / 5)" by simp
  show ?thesis
    using close_before_open_sizes [OF h, of example_strategy example_replies]
    by (simp add: eval_defs)
qed

text \<open>
  C2. With the resting orders that \<^verbatim>\<open>fetch_open_orders\<close> gave (none when it failed), the
  batch to create holds the buy order exactly when the bid tick is not among the ticks of
  the resting buy orders and the quantity to buy is positive, and the sell order likewise.
  When the batch is empty the pass emits nothing at all. Otherwise it first sends
  \<^verbatim>\<open>cancel_all_orders\<close> for the symbol and, that call having returned, the whole batch in
  one \<^verbatim>\<open>create_orders\<close>; the only further event is the log record of the context.
\<close>

theorem full_refresh_reconciliation:
  assumes "position ctx = Some pos" and "0 < tick_size self"
  shows
   "let open_orders = (case fetch_open_orders_reply ex of Inl e \<Rightarrow> [] | Inr os \<Rightarrow> os);
        (bqty, sqty) = remaining_qty (order_qty self) pos;
        need_buy = (bid_tick ctx \<notin> Some ` existing_ticks ''buy'' (tick_size self) open_orders
                    \<and> 0 < bqty);
        need_sell = (ask_tick ctx \<notin> Some ` existing_ticks ''sell'' (tick_size self) open_orders
                     \<and> 0 < sqty);
        create_buy = limit_order (symbol self) ''buy'' bqty (bid_price ctx);
        create_sell = limit_order (symbol self) ''sell'' sqty (ask_price ctx);
        batch = (if need_buy then [create_buy] else []) @ (if need_sell then [create_sell] else []);
        events = fst (manage_orders self ex ctx)
    in (cancel_all_orders_reply ex = None \<longrightarrow>
          (create_buy \<in> set (created_requests events) \<longleftrightarrow> need_buy)
          \<and> (create_sell \<in> set (created_requests events) \<longleftrightarrow> need_sell)
          \<and> set (created_requests events) \<subseteq> {create_buy, create_sell})
       \<and> (if need_buy \<or> need_sell
           then (case cancel_all_orders_reply ex of
                   Some e \<Rightarrow> events = [CancelAllOrders (symbol self)]
                 | None \<Rightarrow>
                     events = [CancelAllOrders (symbol self), CreateOrders batch]
                     \<or> events = [CancelAllOrders (symbol self), CreateOrders batch,
                                  LogRecord ''INFO'' (ctx\<lparr>buy_qty := Some bqty, sell_qty := Some sqty\<rparr>)])
           else events = [])"
proof -
  obtain bqty sqty where q: "remaining_qty (order_qty self) pos = (bqty, sqty)"
    by (cases "remaining_qty (order_qty self) pos")
  define open_orders where
    "open_orders = (case fetch_open_orders_reply ex of Inl e \<Rightarrow> [] | Inr os \<Rightarrow> os)"
  have t: "open_orders = [] \<or> tick_size self \<noteq> 0" using assms(2) by simp
  note ev = manage_orders_events [OF assms(1) q open_orders_def t refl]
  have sides: "limit_order (symbol self) ''buy'' bqty (bid_price ctx)
      \<noteq> limit_order (symbol self) ''sell'' sqty (ask_price ctx)"
    by (simp add: limit_order_def)
  show ?thesis
    unfolding Let_def q prod.case open_orders_def [symmetric] ev
    using sides
    by (auto simp: orders_to_create_def TickContext_log_def Let_def split: option.splits)
qed

theorem full_refresh_reconciliation_witness:
  "manage_orders example_strategy
     (example_replies\<lparr>fetch_open_orders_reply :=
        Inr [\<lparr>ord_side = Some ''buy'', ord_price = Some (999 / 10)\<rparr>]\<rparr>) example_context
   = ([CancelAllOrders ''BTC/USDT:USDT'',
       CreateOrders [limit_order ''BTC/USDT:USDT'' ''sell'' 1 (Some (1011 / 10))],
       LogRecord ''INFO'' (example_context\<lparr>buy_qty := Some 1, sell_qty := Some 1\<rparr>)],
      Inr (example_context\<lparr>buy_qty := Some 1, sell_qty := Some 1\<rparr>))
   \<and> manage_orders example_strategy
     (example_replies\<lparr>fetch_open_orders_reply :=
        Inr [\<lparr>ord_side = Some ''buy'', ord_price = Some (999 / 10)\<rparr>,
             \<lparr>ord_side = Some ''sell'', ord_price = Some (1011 / 10)\<rparr>]\<rparr>) example_context
   = ([], Inr example_context)"
proof -
  have h1: "position example_context = Some 0" by (simp add: example_context_def)
  have h2: "0 < tick_size example_strategy" by (simp add: example_strategy_def)
  show ?thesis
    using full_refresh_reconciliation [OF h1 h2,
        of "example_replies\<lparr>fetch_open_orders_reply :=
              Inr [\<lparr>ord_side = Some ''buy'', ord_price = Some (999 / 10)\<rparr>]\<rparr>"]
      full_refresh_reconciliation [OF h1 h2,
        of "example_replies\<lparr>fetch_open_orders_reply :=
        Inr [\<lparr>ord_side = Some ''buy'', ord_price = Some (999 / 10)\<rparr>,
             \<lparr>ord_side = Some ''sell'', ord_price = Some (1011 / 10)\<rparr>]\<rparr>"]
    by (simp add: eval_defs)
qed

text \<open>
  C9, as amended. When \<^verbatim>\<open>fetch_open_orders\<close> raises, \<open>manage_orders\<close> does what it does
  on an exchange that reports no resting order, events and result alike, and writes no
  log record for the failure: every record of the pass has the level \<^verbatim>\<open>INFO\<close>, the one
  record being the summary of the context after orders were created.
\<close>

theorem fetch_failure_degrades_silently:
  assumes "fetch_open_orders_reply ex = Inl e"
  shows "manage_orders self ex ctx = manage_orders self (ex\<lparr>fetch_open_orders_reply := Inr []\<rparr>) ctx
       \<and> set (log_levels (fst (manage_orders self ex ctx))) \<subseteq> {''INFO''}"
proof
  show "manage_orders self ex ctx = manage_orders self (ex\<lparr>fetch_open_orders_reply := Inr []\<rparr>) ctx"
    using assms by (simp add: manage_orders_def Let_def split: option.splits prod.splits)
  show "set (log_levels (fst (manage_orders self ex ctx))) \<subseteq> {''INFO''}"
    by (auto simp: manage_orders_def Let_def TickContext_log_def
        split: option.splits sum.splits if_splits prod.splits)
qed

theorem fetch_failure_degrades_silently_witness:
  "manage_orders example_strategy
      (example_replies\<lparr>fetch_open_orders_reply := Inl ''NetworkError''\<rparr>) example_context
   = manage_orders example_strategy example_replies example_context
   \<and> log_levels (fst (manage_orders example_strategy
      (example_replies\<lparr>fetch_open_orders_reply := Inl ''NetworkError''\<rparr>) example_context))
     = [''INFO'']"
proof -
  have h: "fetch_open_orders_reply (example_replies\<lparr>fetch_open_orders_reply := Inl ''NetworkError''\<rparr>)
      = Inl ''NetworkError''" by simp
  show ?thesis
    using fetch_failure_degrades_silently [OF h, of example_strategy example_context]
    by (simp add: eval_defs)
qed

text \<open>
  The claim as stated fails: the \<^verbatim>\<open>except\<close> branch only assigns the empty list. On the
  example the pass with a failed fetch creates both orders and logs the summary, and
  no warning.
\<close>

theorem fetch_failure_warning_counterexample:
  "fst (manage_orders example_strategy
      (example_replies\<lparr>fetch_open_orders_reply := Inl ''NetworkError''\<rparr>) example_context)
   = [CancelAllOrders ''BTC/USDT:USDT'',
      CreateOrders [limit_order ''BTC/USDT:USDT'' ''buy'' 1 (Some (999 / 10)),
                    limit_order ''BTC/USDT:USDT'' ''sell'' 1 (Some (1011 / 10))],
      LogRecord ''INFO'' (example_context\<lparr>buy_qty := Some 1, sell_qty := Some 1\<rparr>)]
   \<and> ''WARNING'' \<notin> set (log_levels (fst (manage_orders example_strategy
      (example_replies\<lparr>fetch_open_orders_reply := Inl ''NetworkError''\<rparr>) example_context)))"
  by (simp add: eval_defs)

text \<open>
  C8. The claim fails on the code. On the example a buy order rests at the bid tick 999
  and no sell order. The first pass cancels every order and creates the sell order only,
  so the orders it created, the sell order at 101.1, are all that rests afterwards. The
  second pass, with the same target and these resting orders, finds the buy side missing:
  it cancels again and creates the buy order only.
\<close>

theorem reconcile_not_idempotent:
  "calculate_prices example_strategy example_replies
     (new_TickContext 0 [(100, 2), (99, 3)] [(101, 1), (102, 4)] 0) = Inr example_context
   \<and> fst (manage_orders example_strategy
       (example_replies\<lparr>fetch_open_orders_reply :=
          Inr [\<lparr>ord_side = Some ''buy'', ord_price = Some (999 / 10)\<rparr>]\<rparr>) example_context)
     = [CancelAllOrders ''BTC/USDT:USDT'',
        CreateOrders [limit_order ''BTC/USDT:USDT'' ''sell'' 1 (Some (1011 / 10))],
        LogRecord ''INFO'' (example_context\<lparr>buy_qty := Some 1, sell_qty := Some 1\<rparr>)]
   \<and> created_orders (fst (manage_orders example_strategy
       (example_replies\<lparr>fetch_open_orders_reply :=
          Inr [\<lparr>ord_side = Some ''buy'', ord_price = Some (999 / 10)\<rparr>]\<rparr>) example_context))
     = [\<lparr>ord_side = Some ''sell'', ord_price = Some (1011 / 10)\<rparr>]
   \<and> fst (manage_orders example_strategy
       (example_replies\<lparr>fetch_open_orders_reply :=
          Inr [\<lparr>ord_side = Some ''sell'', ord_price = Some (1011 / 10)\<rparr>]\<rparr>) example_context)
     = [CancelAllOrders ''BTC/USDT:USDT'',
        CreateOrders [limit_order ''BTC/USDT:USDT'' ''buy'' 1 (Some (999 / 10))],
        LogRecord ''INFO'' (example_context\<lparr>buy_qty := Some 1, sell_qty := Some 1\<rparr>)]"
  by (simp add: eval_defs)

text \<open>
  The rounding of C1 breaks the second pass as well: with the tick size 0.5 and no digit,
  the orders created at the prices 100 and 102 for the ticks 199 and 205 are read back as
  the ticks 200 and 204, and the pass that finds them resting creates both again.
\<close>

lemma reconcile_repeats_on_half_tick:
  "fst (manage_orders (example_strategy\<lparr>tick_size := 1 / 2, precision := 0\<rparr>)
         (example_replies\<lparr>fetch_open_orders_reply :=
            Inr [\<lparr>ord_side = Some ''buy'', ord_price = Some 100\<rparr>,
                 \<lparr>ord_side = Some ''sell'', ord_price = Some 102\<rparr>]\<rparr>)
         \<lparr>ts = 0, bids = [(100, 1)], asks = [(102, 1)], alpha = 0,
          mid_price = Some 101, bid_price = Some 100, ask_price = Some 102,
          bid_tick = Some 199, ask_tick = Some 205, position = Some 0,
          buy_qty = None, sell_qty = None\<rparr>)
   = [CancelAllOrders ''BTC/USDT:USDT'',
      CreateOrders [limit_order ''BTC/USDT:USDT'' ''buy'' 1 (Some 100),
                    limit_order ''BTC/USDT:USDT'' ''sell'' 1 (Some 102)],
      LogRecord ''INFO''
        \<lparr>ts = 0, bids = [(100, 1)], asks = [(102, 1)], alpha = 0,
         mid_price = Some 101, bid_price = Some 100, ask_price = Some 102,
         bid_tick = Some 199, ask_tick = Some 205, position = Some 0,
         buy_qty = Some 1, sell_qty = Some 1\<rparr>]"
  by (simp add: eval_defs)

end
